theory Spec2Isabelle
  imports Complex_Main
begin

section \<open>JavaScript numbers\<close>

text \<open>
  The embedding vectors are arrays of JavaScript numbers, which are IEEE 754 binary64
  values. A number is modelled as \<open>NaN\<close>, one of the two infinities, or a finite real;
  the result of an operation on finite operands is the exact result rounded to the
  nearest double (\<open>round_double\<close>), so that it overflows to an infinity and underflows to
  zero as the double operation does.

  A finite double is \<open>m * 2^e\<close> for integers \<open>\<bar>m\<bar> < 2^53\<close> and \<open>-1074 \<le> e \<le> 971\<close>. Around
  a real \<open>x \<noteq> 0\<close> the doubles are spaced \<open>2^e\<close> apart, with
  \<open>e = max \<lfloor>log\<^sub>2 \<bar>x\<bar>\<rfloor> (-1022) - 52\<close> (\<open>ulp_exponent\<close>); \<open>x\<close> is rounded to the nearest
  multiple of that spacing, a tie going to the even multiple (\<open>round_half_even\<close>), and a
  result of magnitude \<open>2^1024\<close> is an infinity.

  \<open>Fin\<close> admits every real, also one that is no double, as a component of a vector; the
  theorems below hold for all of them, and every value an operation returns is a double.

  The two zeros of binary64 are one value here. The sign of a zero is not observable in
  the code modelled: \<open>+0\<close> and \<open>-0\<close> compare equal, a sum of squares and its square root
  are never \<open>-0\<close>, so the divisor of \<open>cosineSimilarity\<close> is never \<open>-0\<close> and a zero divisor is
  taken as \<open>+0\<close>.
\<close>

datatype jsnum = NaN | NegInfinity | Infinity | Fin real

definition round_half_even :: "real \<Rightarrow> int" where
  "round_half_even y =
     (let f = \<lfloor>y\<rfloor>; d = y - of_int f
      in if d < 1 / 2 then f else if 1 / 2 < d then f + 1 else if even f then f else f + 1)"

definition ulp_exponent :: "real \<Rightarrow> int" where
  "ulp_exponent x = max \<lfloor>log 2 \<bar>x\<bar>\<rfloor> (- 1022) - 52"

definition round_double :: "real \<Rightarrow> jsnum" where
  "round_double x =
     (if x = 0 then Fin 0
      else let r = of_int (round_half_even (x / 2 powr of_int (ulp_exponent x)))
                     * 2 powr of_int (ulp_exponent x)
           in if 2 ^ 1024 \<le> r then Infinity
              else if r \<le> - (2 ^ 1024) then NegInfinity
              else Fin r)"

fun js_add :: "jsnum \<Rightarrow> jsnum \<Rightarrow> jsnum" where
  "js_add NaN y = NaN"
| "js_add x NaN = NaN"
| "js_add (Fin x) (Fin y) = round_double (x + y)"
| "js_add Infinity NegInfinity = NaN"
| "js_add NegInfinity Infinity = NaN"
| "js_add Infinity y = Infinity"
| "js_add x Infinity = Infinity"
| "js_add NegInfinity y = NegInfinity"
| "js_add x NegInfinity = NegInfinity"

fun js_mul :: "jsnum \<Rightarrow> jsnum \<Rightarrow> jsnum" where
  "js_mul NaN y = NaN"
| "js_mul x NaN = NaN"
| "js_mul (Fin x) (Fin y) = round_double (x * y)"
| "js_mul (Fin x) Infinity = (if x = 0 then NaN else if 0 < x then Infinity else NegInfinity)"
| "js_mul (Fin x) NegInfinity = (if x = 0 then NaN else if 0 < x then NegInfinity else Infinity)"
| "js_mul Infinity (Fin y) = (if y = 0 then NaN else if 0 < y then Infinity else NegInfinity)"
| "js_mul NegInfinity (Fin y) = (if y = 0 then NaN else if 0 < y then NegInfinity else Infinity)"
| "js_mul Infinity Infinity = Infinity"
| "js_mul Infinity NegInfinity = NegInfinity"
| "js_mul NegInfinity Infinity = NegInfinity"
| "js_mul NegInfinity NegInfinity = Infinity"

fun js_div :: "jsnum \<Rightarrow> jsnum \<Rightarrow> jsnum" where
  "js_div NaN y = NaN"
| "js_div x NaN = NaN"
| "js_div (Fin x) (Fin y) =
     (if y = 0 then (if x = 0 then NaN else if 0 < x then Infinity else NegInfinity)
      else round_double (x / y))"
| "js_div (Fin x) Infinity = Fin 0"
| "js_div (Fin x) NegInfinity = Fin 0"
| "js_div Infinity (Fin y) = (if y < 0 then NegInfinity else Infinity)"
| "js_div NegInfinity (Fin y) = (if y < 0 then Infinity else NegInfinity)"
| "js_div Infinity Infinity = NaN"
| "js_div Infinity NegInfinity = NaN"
| "js_div NegInfinity Infinity = NaN"
| "js_div NegInfinity NegInfinity = NaN"

text \<open>\<open>Math.sqrt\<close>, the correctly rounded square root.\<close>

fun js_sqrt :: "jsnum \<Rightarrow> jsnum" where
  "js_sqrt NaN = NaN"
| "js_sqrt NegInfinity = NaN"
| "js_sqrt Infinity = Infinity"
| "js_sqrt (Fin x) = (if x < 0 then NaN else round_double (sqrt x))"

text \<open>The comparison \<open>x > y\<close>.\<close>

fun js_gt :: "jsnum \<Rightarrow> jsnum \<Rightarrow> bool" where
  "js_gt NaN y = False"
| "js_gt x NaN = False"
| "js_gt (Fin x) (Fin y) = (y < x)"
| "js_gt Infinity Infinity = False"
| "js_gt Infinity y = True"
| "js_gt x Infinity = False"
| "js_gt NegInfinity y = False"
| "js_gt x NegInfinity = True"

section \<open>Arrays\<close>

type_synonym vec = "jsnum list"

text \<open>
  \<open>xs[i]\<close>: reading an array beyond its end gives \<open>undefined\<close> (here \<open>None\<close>), and
  \<open>undefined\<close> used as a number is \<open>NaN\<close>.
\<close>

definition index :: "'a list \<Rightarrow> nat \<Rightarrow> 'a option" where
  "index xs i = (if i < length xs then Some (xs ! i) else None)"

fun ToNumber :: "jsnum option \<Rightarrow> jsnum" where
  "ToNumber None = NaN"
| "ToNumber (Some x) = x"

text \<open>
  \<open>Array.prototype.reduce\<close> with an initial value: a left fold whose callback receives
  the accumulator, the element and the element's index.
\<close>

fun reduce_from :: "nat \<Rightarrow> ('b \<Rightarrow> 'a \<Rightarrow> nat \<Rightarrow> 'b) \<Rightarrow> 'b \<Rightarrow> 'a list \<Rightarrow> 'b" where
  "reduce_from i f acc [] = acc"
| "reduce_from i f acc (x # xs) = reduce_from (Suc i) f (f acc x i) xs"

definition reduce :: "('b \<Rightarrow> 'a \<Rightarrow> nat \<Rightarrow> 'b) \<Rightarrow> 'b \<Rightarrow> 'a list \<Rightarrow> 'b" where
  "reduce f init xs = reduce_from 0 f init xs"

section \<open>Cosine similarity (query.js, lines 174-179)\<close>

definition dotProduct :: "vec \<Rightarrow> vec \<Rightarrow> jsnum" where
  "dotProduct vecA vecB =
     reduce (\<lambda>sum a i. js_add sum (js_mul a (ToNumber (index vecB i)))) (Fin 0) vecA"

definition magnitude :: "vec \<Rightarrow> jsnum" where
  "magnitude v = js_sqrt (reduce (\<lambda>sum val i. js_add sum (js_mul val val)) (Fin 0) v)"

definition cosineSimilarity :: "vec \<Rightarrow> vec \<Rightarrow> jsnum" where
  "cosineSimilarity vecA vecB =
     js_div (dotProduct vecA vecB) (js_mul (magnitude vecA) (magnitude vecB))"

section \<open>Stored documents and the outside world\<close>

text \<open>
  A document of the \<open>Embedding\<close> model (query.js, lines 39-45): the name of the uploaded
  file, the embedding and the extracted text. The older server (part_000, lines 23-28)
  stores no \<open>content\<close>; there the field is absent (\<open>None\<close>). The schema fixes no length
  for \<open>embedding\<close> and declares no unique index.
\<close>

record doc =
  documentName :: string
  embedding :: vec
  content :: "string option"

text \<open>
  A thrown value. \<open>MulterError\<close> is the one class the upload handler tells apart;
  \<open>TypeError\<close> is what the language throws on a property read of \<open>null\<close> or
  \<open>undefined\<close>; \<open>Failure\<close> is any other error thrown by a library call.
\<close>

datatype error = MulterError string | TypeError | Failure string

text \<open>
  The libraries the handlers call are not part of the repository. Each call is a function
  of its argument that returns or throws:
  \<^item> \<open>extractText\<close>: reading the uploaded file, \<open>pdfParse\<close> and removing the file
    (query.js, lines 81-89), from the file name to the extracted text;
  \<^item> \<open>featureExtraction\<close>: \<open>hf.featureExtraction\<close>, from the input text (which the older
    server may pass as \<open>undefined\<close>) to the array of vectors the handlers index with \<open>[0]\<close>;
  \<^item> \<open>save_error\<close>: whether \<open>save()\<close> of a new document throws;
  \<^item> \<open>find_error\<close>: whether \<open>Embedding.find()\<close> throws;
  \<^item> \<open>chat_create\<close>: \<open>openai.chat.completions.create\<close>, from the prompt to the
    \<open>message.content\<close> of each of the returned \<open>choices\<close>.
\<close>

record env =
  extractText :: "string \<Rightarrow> error + string"
  featureExtraction :: "string option \<Rightarrow> error + vec list"
  save_error :: "doc \<Rightarrow> error option"
  find_error :: "error option"
  chat_create :: "string \<Rightarrow> error + string list"

text \<open>
  The collection is the list of its documents in insertion order. \<open>save()\<close> of a document
  made with \<open>new Embedding(...)\<close> inserts it under a fresh \<open>_id\<close>: it adds a document and
  replaces none. \<open>Embedding.find()\<close> with no filter returns every document.
\<close>

definition save :: "env \<Rightarrow> doc list \<Rightarrow> doc \<Rightarrow> error + doc list" where
  "save e store d = (case save_error e d of Some err \<Rightarrow> Inl err | None \<Rightarrow> Inr (store @ [d]))"

definition find_all :: "env \<Rightarrow> doc list \<Rightarrow> error + doc list" where
  "find_all e store = (case find_error e of Some err \<Rightarrow> Inl err | None \<Rightarrow> Inr store)"

text \<open>The object a handler passes to \<open>res.status(...).json(...)\<close>; an absent key is \<open>None\<close>.\<close>

record http_response =
  status :: nat
  message :: string
  response :: "string option"
  similarity :: "jsnum option"

definition reply :: "nat \<Rightarrow> string \<Rightarrow> http_response" where
  "reply code msg = \<lparr>status = code, message = msg, response = None, similarity = None\<rparr>"

text \<open>
  What the caller receives. \<open>res.json\<close> is the framework's: it sends \<open>JSON.stringify\<close> of
  the object as the body. \<open>JSON.stringify\<close> leaves out a key whose value is \<open>undefined\<close>,
  writes a finite number as a number and writes \<open>NaN\<close> and the two infinities, which
  JSON cannot express, as \<open>null\<close>. The body is the list of its keys and values in the
  order of the object literal.
\<close>

datatype json = JNull | JNumber real | JString string

fun json_number :: "jsnum \<Rightarrow> json" where
  "json_number (Fin x) = JNumber x"
| "json_number NaN = JNull"
| "json_number Infinity = JNull"
| "json_number NegInfinity = JNull"

definition json_body :: "http_response \<Rightarrow> (string \<times> json) list" where
  "json_body r =
     [(''message'', JString (message r))]
       @ (case response r of None \<Rightarrow> [] | Some answer \<Rightarrow> [(''response'', JString answer)])
       @ (case similarity r of None \<Rightarrow> [] | Some s \<Rightarrow> [(''similarity'', json_number s)])"

section \<open>POST /upload (query.js, lines 71-116)\<close>

text \<open>
  The body of the \<open>try\<close> block: the response it sends, or the error it throws, and the
  collection afterwards. \<open>file\<close> is \<open>req.file.filename\<close>, or \<open>None\<close> when no file was
  uploaded. A document made without an \<open>embedding\<close> (\<open>embeddings[0]\<close> being \<open>undefined\<close>)
  gets the empty array, the default of an array path.
\<close>

definition upload_try :: "env \<Rightarrow> doc list \<Rightarrow> string option \<Rightarrow> (error + http_response) \<times> doc list" where
  "upload_try e store file =
     (case file of
        None \<Rightarrow> (Inr (reply 400 ''No file uploaded''), store)
      | Some filename \<Rightarrow>
          (case extractText e filename of
             Inl err \<Rightarrow> (Inl err, store)
           | Inr extractedText \<Rightarrow>
               (case featureExtraction e (Some extractedText) of
                  Inl err \<Rightarrow> (Inl err, store)
                | Inr embeddings \<Rightarrow>
                    (let newEmbedding =
                           \<lparr>documentName = filename,
                            embedding = (case index embeddings 0 of None \<Rightarrow> [] | Some v \<Rightarrow> v),
                            content = Some extractedText\<rparr>
                     in case save e store newEmbedding of
                          Inl err \<Rightarrow> (Inl err, store)
                        | Inr store' \<Rightarrow> (Inr (reply 201 ''Embedding saved successfully''), store')))))"

text \<open>The \<open>catch\<close> block.\<close>

fun upload_catch :: "error \<Rightarrow> http_response" where
  "upload_catch (MulterError m) = reply 400 (''Multer error: '' @ m)"
| "upload_catch err = reply 500 ''Error processing the PDF''"

definition upload :: "env \<Rightarrow> doc list \<Rightarrow> string option \<Rightarrow> http_response \<times> doc list" where
  "upload e store file =
     (case upload_try e store file of
        (Inl err, store') \<Rightarrow> (upload_catch err, store')
      | (Inr r, store') \<Rightarrow> (r, store'))"

section \<open>POST /query (query.js, lines 119-171)\<close>

text \<open>
  The callback of \<open>allEmbeddings.forEach\<close> (lines 139-145) on the pair
  \<open>(bestMatch, highestSimilarity)\<close>, and the loop started at \<open>(null, -Infinity)\<close>.
\<close>

fun scan_step :: "vec \<Rightarrow> doc option \<times> jsnum \<Rightarrow> doc \<Rightarrow> doc option \<times> jsnum" where
  "scan_step queryVec (bestMatch, highestSimilarity) d =
     (let similarity = cosineSimilarity queryVec (embedding d)
      in if js_gt similarity highestSimilarity then (Some d, similarity)
         else (bestMatch, highestSimilarity))"

definition nearest :: "vec \<Rightarrow> doc list \<Rightarrow> doc option \<times> jsnum" where
  "nearest queryVec allEmbeddings = foldl (scan_step queryVec) (None, NegInfinity) allEmbeddings"

text \<open>
  The search on \<open>queryEmbedding[0]\<close>. When the embedding call returned an empty array,
  \<open>queryEmbedding[0]\<close> is \<open>undefined\<close> and the first call of \<open>cosineSimilarity\<close> throws at
  \<open>vecA.reduce\<close>; with no document the callback never runs.
\<close>

definition search :: "vec list \<Rightarrow> doc list \<Rightarrow> error + doc option \<times> jsnum" where
  "search queryEmbedding allEmbeddings =
     (case index queryEmbedding 0 of
        Some queryVec \<Rightarrow> Inr (nearest queryVec allEmbeddings)
      | None \<Rightarrow> (if allEmbeddings = [] then Inr (None, NegInfinity) else Inl TypeError))"

text \<open>The template literal of line 154; an absent \<open>content\<close> prints as \<open>undefined\<close>.\<close>

definition prompt :: "doc \<Rightarrow> string \<Rightarrow> string" where
  "prompt bestMatch queryText =
     ''Based on the document: ''
       @ (case content bestMatch of None \<Rightarrow> ''undefined'' | Some c \<Rightarrow> c) @ '', '' @ queryText"

definition query_try :: "env \<Rightarrow> doc list \<Rightarrow> string option \<Rightarrow> error + http_response" where
  "query_try e store queryText =
     (case queryText of
        None \<Rightarrow> Inr (reply 400 ''Query text is required'')
      | Some text \<Rightarrow>
          if text = [] then Inr (reply 400 ''Query text is required'')
          else
            (case featureExtraction e (Some text) of
               Inl err \<Rightarrow> Inl err
             | Inr queryEmbedding \<Rightarrow>
                 (case find_all e store of
                    Inl err \<Rightarrow> Inl err
                  | Inr allEmbeddings \<Rightarrow>
                      (case search queryEmbedding allEmbeddings of
                         Inl err \<Rightarrow> Inl err
                       | Inr (None, highestSimilarity) \<Rightarrow>
                           Inr \<lparr>status = 200, message = ''No match found'', response = None,
                                similarity = Some highestSimilarity\<rparr>
                       | Inr (Some bestMatch, highestSimilarity) \<Rightarrow>
                           (case chat_create e (prompt bestMatch text) of
                              Inl err \<Rightarrow> Inl err
                            | Inr choices \<Rightarrow>
                                (case index choices 0 of
                                   None \<Rightarrow> Inl TypeError
                                 | Some answer \<Rightarrow>
                                     Inr \<lparr>status = 200,
                                          message = ''Closest match for your query: ''
                                                      @ documentName bestMatch,
                                          response = Some answer,
                                          similarity = Some highestSimilarity\<rparr>))))))"

definition query :: "env \<Rightarrow> doc list \<Rightarrow> string option \<Rightarrow> http_response" where
  "query e store queryText =
     (case query_try e store queryText of
        Inl err \<Rightarrow> reply 500 ''Error processing query''
      | Inr r \<Rightarrow> r)"

section \<open>POST /query of the older server (part_000, lines 80-111)\<close>

text \<open>
  No check of \<open>queryText\<close>, no answer generation, and \<open>bestMatch.documentName\<close> read
  whether or not the loop set \<open>bestMatch\<close>: on \<open>null\<close> the read throws.
\<close>

definition query_old_try :: "env \<Rightarrow> doc list \<Rightarrow> string option \<Rightarrow> error + http_response" where
  "query_old_try e store queryText =
     (case featureExtraction e queryText of
        Inl err \<Rightarrow> Inl err
      | Inr queryEmbedding \<Rightarrow>
          (case find_all e store of
             Inl err \<Rightarrow> Inl err
           | Inr allEmbeddings \<Rightarrow>
               (case search queryEmbedding allEmbeddings of
                  Inl err \<Rightarrow> Inl err
                | Inr (None, highestSimilarity) \<Rightarrow> Inl TypeError
                | Inr (Some bestMatch, highestSimilarity) \<Rightarrow>
                    Inr \<lparr>status = 200,
                         message = ''Closest match for your query: '' @ documentName bestMatch,
                         response = None,
                         similarity = Some highestSimilarity\<rparr>)))"

definition query_old :: "env \<Rightarrow> doc list \<Rightarrow> string option \<Rightarrow> http_response" where
  "query_old e store queryText =
     (case query_old_try e store queryText of
        Inl err \<Rightarrow> reply 500 ''Error processing query''
      | Inr r \<Rightarrow> r)"

section \<open>Concrete documents and environments\<close>

text \<open>Small inputs on which the definitions are evaluated further below.\<close>

definition doc_a :: doc where
  "doc_a = \<lparr>documentName = ''a.pdf'', embedding = [Fin 1, Fin 0], content = Some ''alpha''\<rparr>"

definition doc_b :: doc where
  "doc_b = \<lparr>documentName = ''b.pdf'', embedding = [Fin 0, Fin 1], content = Some ''beta''\<rparr>"

definition doc_c :: doc where
  "doc_c = \<lparr>documentName = ''c.pdf'', embedding = [Fin 1, Fin 0], content = Some ''gamma''\<rparr>"

definition doc_zero :: doc where
  "doc_zero = \<lparr>documentName = ''z.pdf'', embedding = [Fin 0, Fin 0], content = Some ''zeta''\<rparr>"

definition doc_long :: doc where
  "doc_long = \<lparr>documentName = ''l.pdf'', embedding = [Fin 1, Fin 0, Fin 0], content = Some ''lambda''\<rparr>"

definition doc_unit :: doc where
  "doc_unit = \<lparr>documentName = ''u.pdf'', embedding = [Fin 1], content = Some ''upsilon''\<rparr>"

text \<open>A double so small that its square underflows to zero: \<open>2^-600\<close>.\<close>

definition tiny :: real where
  "tiny = 2 powr (- 600)"

definition doc_a_again :: doc where
  "doc_a_again = \<lparr>documentName = ''a.pdf'', embedding = [Fin 0, Fin 1], content = Some ''alpha, revised''\<rparr>"

text \<open>Every call succeeds; the embedding of any text is the single vector \<open>[1, 0]\<close>.\<close>

definition env_ok :: env where
  "env_ok = \<lparr>extractText = (\<lambda>filename. Inr ''alpha''),
             featureExtraction = (\<lambda>inputs. Inr [[Fin 1, Fin 0]]),
             save_error = (\<lambda>d. None),
             find_error = None,
             chat_create = (\<lambda>p. Inr [''an answer''])\<rparr>"

text \<open>As \<open>env_ok\<close>, with the generation call throwing.\<close>

definition env_generation_down :: env where
  "env_generation_down = env_ok\<lparr>chat_create := (\<lambda>p. Inl (Failure ''generation unavailable''))\<rparr>"

text \<open>As \<open>env_ok\<close>, with the embedding call throwing.\<close>

definition env_embedding_down :: env where
  "env_embedding_down = env_ok\<lparr>featureExtraction := (\<lambda>inputs. Inl (Failure ''embedding unavailable''))\<rparr>"

text \<open>The upload of \<open>l.pdf\<close>, whose text embeds to a vector of three components.\<close>

definition env_long :: env where
  "env_long = env_ok\<lparr>extractText := (\<lambda>filename. Inr ''lambda''),
                     featureExtraction := (\<lambda>inputs. Inr [[Fin 1, Fin 0, Fin 0]])\<rparr>"

text \<open>A second upload of \<open>a.pdf\<close>, with a revised text and another embedding.\<close>

definition env_again :: env where
  "env_again = env_ok\<lparr>extractText := (\<lambda>filename. Inr ''alpha, revised''),
                      featureExtraction := (\<lambda>inputs. Inr [[Fin 0, Fin 1]])\<rparr>"

text \<open>As \<open>env_ok\<close>, with the embedding of any text the single vector \<open>[-2^-600]\<close>.\<close>

definition env_tiny :: env where
  "env_tiny = env_ok\<lparr>featureExtraction := (\<lambda>inputs. Inr [[Fin (- tiny)]])\<rparr>"

section \<open>The comparison and the scan\<close>

lemma js_gt_irrefl: "\<not> js_gt x x"
  by (cases x) simp_all

lemma js_gt_trans: "js_gt x y \<Longrightarrow> js_gt y z \<Longrightarrow> js_gt x z"
  by (cases x; cases y; cases z) simp_all

lemma js_gt_not_above: "\<not> js_gt s h \<Longrightarrow> js_gt h' h \<Longrightarrow> \<not> js_gt s h'"
  by (cases s; cases h; cases h') simp_all

lemma js_gt_NegInfinity_iff: "js_gt x NegInfinity \<longleftrightarrow> x \<noteq> NaN \<and> x \<noteq> NegInfinity"
  by (cases x) simp_all

lemma foldl_scan_step:
  "foldl (scan_step q) (b, h) ds = (b', h') \<Longrightarrow>
     (\<forall>j<length ds. \<not> js_gt (cosineSimilarity q (embedding (ds ! j))) h') \<and>
     ((b' = b \<and> h' = h) \<or>
      (\<exists>i<length ds. b' = Some (ds ! i) \<and> h' = cosineSimilarity q (embedding (ds ! i)) \<and>
          js_gt h' h \<and> (\<forall>j<i. cosineSimilarity q (embedding (ds ! j)) \<noteq> h')))"
proof (induction ds arbitrary: b' h' rule: rev_induct)
  case Nil
  then show ?case by simp
next
  case (snoc d ds)
  obtain b1 h1 where mid: "foldl (scan_step q) (b, h) ds = (b1, h1)"
    by (cases "foldl (scan_step q) (b, h) ds") auto
  note IH = snoc.IH [OF mid]
  let ?s = "cosineSimilarity q (embedding d)"
  from snoc.prems mid have step: "scan_step q (b1, h1) d = (b', h')" by simp
  have h1_h: "h1 = h \<or> js_gt h1 h" using IH by auto
  show ?case
  proof (cases "js_gt ?s h1")
    case True
    with step have res: "b' = Some d" "h' = ?s" by (simp_all add: Let_def)
    have below: "\<forall>j<length ds. \<not> js_gt (cosineSimilarity q (embedding (ds ! j))) ?s"
      using IH True js_gt_not_above by blast
    have first: "\<forall>j<length ds. cosineSimilarity q (embedding (ds ! j)) \<noteq> ?s"
      using IH True by auto
    have up: "js_gt ?s h" using h1_h True js_gt_trans by blast
    have all: "\<forall>j<length (ds @ [d]). \<not> js_gt (cosineSimilarity q (embedding ((ds @ [d]) ! j))) h'"
      using below res js_gt_irrefl by (auto simp: nth_append less_Suc_eq)
    have sel: "\<exists>i<length (ds @ [d]). b' = Some ((ds @ [d]) ! i) \<and>
         h' = cosineSimilarity q (embedding ((ds @ [d]) ! i)) \<and> js_gt h' h \<and>
         (\<forall>j<i. cosineSimilarity q (embedding ((ds @ [d]) ! j)) \<noteq> h')"
      using res up first by (intro exI [of _ "length ds"]) (simp add: nth_append)
    from all sel show ?thesis by blast
  next
    case False
    with step have res: "b' = b1" "h' = h1" by (simp_all add: Let_def)
    have all: "\<forall>j<length (ds @ [d]). \<not> js_gt (cosineSimilarity q (embedding ((ds @ [d]) ! j))) h'"
      using IH False res by (auto simp: nth_append less_Suc_eq)
    from IH have "(b1 = b \<and> h1 = h) \<or>
      (\<exists>i<length ds. b1 = Some (ds ! i) \<and> h1 = cosineSimilarity q (embedding (ds ! i)) \<and>
          js_gt h1 h \<and> (\<forall>j<i. cosineSimilarity q (embedding (ds ! j)) \<noteq> h1))" by blast
    then show ?thesis
    proof
      assume "b1 = b \<and> h1 = h"
      with all res show ?thesis by blast
    next
      assume "\<exists>i<length ds. b1 = Some (ds ! i) \<and> h1 = cosineSimilarity q (embedding (ds ! i)) \<and>
          js_gt h1 h \<and> (\<forall>j<i. cosineSimilarity q (embedding (ds ! j)) \<noteq> h1)"
      then obtain i where i: "i < length ds" "b1 = Some (ds ! i)"
        "h1 = cosineSimilarity q (embedding (ds ! i))" "js_gt h1 h"
        "\<forall>j<i. cosineSimilarity q (embedding (ds ! j)) \<noteq> h1" by blast
      have "i < length (ds @ [d]) \<and> b' = Some ((ds @ [d]) ! i) \<and>
         h' = cosineSimilarity q (embedding ((ds @ [d]) ! i)) \<and> js_gt h' h \<and>
         (\<forall>j<i. cosineSimilarity q (embedding ((ds @ [d]) ! j)) \<noteq> h')"
        using i res by (auto simp: nth_append)
      with all show ?thesis by blast
    qed
  qed
qed

section \<open>Rounding to the nearest double\<close>

lemma round_half_even_int [simp]: "round_half_even (of_int n) = n"
  by (simp add: round_half_even_def)


lemma two_powr_1024: "(2::real) powr 1024 = 2 ^ 1024"
  using powr_realpow [of "2::real" 1024] by simp

lemma round_double_representable:
  assumes x: "x = of_int m * 2 powr of_int k" and m: "\<bar>m\<bar> < 2 ^ 53"
    and k: "- 1074 \<le> k" "k \<le> 971"
  shows "round_double x = Fin x"
proof (cases "m = 0")
  case True
  with x show ?thesis by (simp add: round_double_def)
next
  case False
  have pos: "0 < (2::real) powr of_int k" by simp
  from False x have x0: "x \<noteq> 0" by simp
  have absx: "\<bar>x\<bar> = of_int \<bar>m\<bar> * 2 powr of_int k" using x by (simp add: abs_mult)
  have "real_of_int \<bar>m\<bar> < 2 ^ 53" using m by (metis of_int_less_numeral_power_cancel_iff)
  then have "\<bar>x\<bar> < 2 ^ 53 * 2 powr of_int k" using absx pos by simp
  also have "\<dots> = 2 powr (53 + of_int k)"
    using powr_realpow [of "2::real" 53] by (simp add: powr_add)
  finally have lt: "\<bar>x\<bar> < 2 powr (53 + of_int k)" .
  then have "log 2 \<bar>x\<bar> < 53 + of_int k" using x0 by (simp add: log_less_iff)
  then have "\<lfloor>log 2 \<bar>x\<bar>\<rfloor> < 53 + k" by linarith
  then have E: "ulp_exponent x \<le> k" using k by (simp add: ulp_exponent_def)
  define E where "E = ulp_exponent x"
  define j where "j = nat (k - E)"
  define P where "P = (2::real) powr of_int E"
  have Ppos: "0 < P" by (simp add: P_def)
  have kj: "of_int k = of_int E + real j" using E by (simp add: j_def E_def)
  have split: "(2::real) powr of_int k = P * 2 ^ j"
    unfolding kj P_def by (simp add: powr_add powr_realpow)
  have xP: "x = of_int (m * 2 ^ j) * P" using x split by simp
  then have q: "x / P = of_int (m * 2 ^ j)" using Ppos by simp
  have r: "of_int (round_half_even (x / 2 powr of_int (ulp_exponent x)))
             * 2 powr of_int (ulp_exponent x) = x"
    using q xP unfolding E_def [symmetric] P_def [symmetric] by (simp only: round_half_even_int)
  have "53 + real_of_int k \<le> 1024" using k by simp
  then have "(2::real) powr (53 + of_int k) \<le> 2 powr 1024" by (rule powr_mono) simp
  with lt two_powr_1024 have "\<bar>x\<bar> < 2 ^ 1024" by linarith
  then have "\<not> 2 ^ 1024 \<le> x" "\<not> x \<le> - (2 ^ 1024)" by linarith+
  with x0 r show ?thesis by (simp add: round_double_def Let_def)
qed

lemma round_double_underflow:
  assumes "\<bar>x\<bar> < 2 powr (- 1075)"
  shows "round_double x = Fin 0"
proof (cases "x = 0")
  case True
  then show ?thesis by (simp add: round_double_def)
next
  case False
  from assms False have "log 2 \<bar>x\<bar> < - 1075" by (simp add: log_less_iff)
  then have "\<lfloor>log 2 \<bar>x\<bar>\<rfloor> < - 1075" by linarith
  then have E: "ulp_exponent x = - 1074" by (simp add: ulp_exponent_def)
  define y where "y = x / 2 powr (- 1074)"
  have "(2::real) powr (- 1075) = 2 powr (- 1074) * (1 / 2)"
    using powr_add [of "2::real" "- 1074" "- 1"] by (simp add: powr_minus)
  with assms have "\<bar>x\<bar> < 2 powr (- 1074) * (1 / 2)" by simp
  then have "\<bar>y\<bar> < 1 / 2"
    unfolding y_def by (simp add: abs_divide pos_divide_less_eq mult.commute)
  then have y: "- (1 / 2) < y" "y < 1 / 2" by linarith+
  have "round_half_even y = 0"
  proof (cases "0 \<le> y")
    case True
    with y have "\<lfloor>y\<rfloor> = 0" by (simp add: floor_eq_iff)
    with y show ?thesis by (simp add: round_half_even_def)
  next
    case False
    with y have "\<lfloor>y\<rfloor> = - 1" by (simp add: floor_eq_iff)
    with y show ?thesis by (simp add: round_half_even_def)
  qed
  then show ?thesis using False E by (simp add: round_double_def Let_def y_def)
qed


lemma round_double_zero [simp]: "round_double 0 = Fin 0"
  by (simp add: round_double_def)

lemma round_double_int:
  "\<bar>n\<bar> < 2 ^ 53 \<Longrightarrow> round_double (of_int n) = Fin (of_int n)"
  using round_double_representable [of "of_int n" n 0] by simp

lemma round_double_one [simp]: "round_double 1 = Fin 1"
  using round_double_int [of 1] by simp

lemma round_double_numeral [simp]:
  "(numeral n :: int) < 2 ^ 53 \<Longrightarrow> round_double (numeral n) = Fin (numeral n)"
  using round_double_int [of "numeral n"] by simp

lemma round_double_neg_numeral [simp]:
  "(numeral n :: int) < 2 ^ 53 \<Longrightarrow> round_double (- numeral n) = Fin (- numeral n)"
  using round_double_int [of "- numeral n"] by simp

text \<open>
  Three checks of the rounding against binary64: a tie goes to the even neighbour
  (\<open>2^53 + 1\<close> is \<open>2^53\<close> and \<open>2^53 + 3\<close> is \<open>2^53 + 4\<close>), and the square of \<open>2^600\<close>
  overflows.
\<close>

lemma ulp_exponent_between:
  assumes "2 powr of_int k \<le> \<bar>x\<bar>" and "\<bar>x\<bar> < 2 powr of_int (k + 1)"
  shows "ulp_exponent x = max k (- 1022) - 52"
proof -
  have "0 < (2::real) powr of_int k" by simp
  with assms(1) have "0 < \<bar>x\<bar>" by linarith
  then have "\<lfloor>log 2 \<bar>x\<bar>\<rfloor> = k" using assms by (simp add: floor_log_eq_powr_iff)
  then show ?thesis by (simp add: ulp_exponent_def)
qed

lemma round_double_tie_even:
  "round_double (2 ^ 53 + 1) = Fin (2 ^ 53)" "round_double (2 ^ 53 + 3) = Fin (2 ^ 53 + 4)"
proof -
  have p: "(2::real) powr of_int 53 = 2 ^ 53" "(2::real) powr of_int (53 + 1) = 2 ^ 54"
    using powr_realpow [of "2::real" 53] powr_realpow [of "2::real" 54] by simp_all
  have e1: "ulp_exponent (2 ^ 53 + 1) = 1"
    using ulp_exponent_between [of 53 "2 ^ 53 + 1"] p by simp
  have e3: "ulp_exponent (2 ^ 53 + 3) = 1"
    using ulp_exponent_between [of 53 "2 ^ 53 + 3"] p by simp
  have f1: "\<lfloor>(2 ^ 53 + 1) / 2 :: real\<rfloor> = 2 ^ 52" by (simp add: floor_eq_iff)
  have f3: "\<lfloor>(2 ^ 53 + 3) / 2 :: real\<rfloor> = 2 ^ 52 + 1" by (simp add: floor_eq_iff)
  have r1: "round_half_even ((2 ^ 53 + 1) / 2) = 2 ^ 52"
    unfolding round_half_even_def f1 by (simp add: Let_def)
  have r3: "round_half_even ((2 ^ 53 + 3) / 2) = 2 ^ 52 + 2"
    unfolding round_half_even_def f3 by (simp add: Let_def)
  show "round_double (2 ^ 53 + 1) = Fin (2 ^ 53)"
    unfolding round_double_def e1 using r1 by (simp add: Let_def)
  show "round_double (2 ^ 53 + 3) = Fin (2 ^ 53 + 4)"
    unfolding round_double_def e3 using r3 by (simp add: Let_def)
qed

lemma round_double_overflow: "round_double (2 ^ 600 * 2 ^ 600) = Infinity"
proof -
  define x :: real where "x = 2 ^ 600 * 2 ^ 600"
  have x: "x = 2 powr of_int 1200"
    using powr_realpow [of "2::real" 1200] by (simp add: x_def power_add [symmetric])
  have "\<bar>x\<bar> = 2 powr of_int 1200" using x by simp
  moreover have "(2::real) powr of_int 1200 < 2 powr of_int (1200 + 1)"
    by (rule powr_less_mono) simp_all
  ultimately have e: "ulp_exponent x = 1148"
    using ulp_exponent_between [of 1200 x] by simp
  have "(2::real) powr of_int 1200 = 2 powr of_int 1148 * 2 ^ 52"
    using powr_add [of "2::real" 1148 52] powr_realpow [of "2::real" 52] by simp
  then have q: "x / 2 powr of_int 1148 = of_int (2 ^ 52)" using x by simp
  have r: "of_int (round_half_even (x / 2 powr of_int 1148)) * 2 powr of_int 1148 = x"
    unfolding q round_half_even_int using x \<open>2 powr of_int 1200 = 2 powr of_int 1148 * 2 ^ 52\<close>
    by simp
  have "(2::real) powr 1024 \<le> 2 powr of_int 1200" by (rule powr_mono) simp_all
  then have big: "2 ^ 1024 \<le> x" using x two_powr_1024 by simp
  have "x \<noteq> 0" using x by simp
  then have "round_double x = Infinity"
    unfolding round_double_def e using r big by (simp add: Let_def)
  then show ?thesis by (simp add: x_def)
qed

text \<open>\<open>2^-600\<close> and its negation are doubles; the square \<open>2^-1200\<close> rounds to zero.\<close>

lemma tiny_pos: "0 < tiny"
  by (simp add: tiny_def)

lemma round_double_tiny: "round_double tiny = Fin tiny" "round_double (- tiny) = Fin (- tiny)"
  using round_double_representable [of tiny 1 "- 600"]
        round_double_representable [of "- tiny" "- 1" "- 600"]
  by (simp_all add: tiny_def)

lemma round_double_tiny_square: "round_double (tiny * tiny) = Fin 0"
proof -
  have "tiny * tiny = 2 powr (- 1200)"
    using powr_add [of "2::real" "- 600" "- 600"] by (simp add: tiny_def)
  moreover have "(2::real) powr (- 1200) < 2 powr (- 1075)" by (rule powr_less_mono) simp_all
  ultimately show ?thesis using round_double_underflow [of "tiny * tiny"] by simp
qed

section \<open>Dot products and magnitudes\<close>

lemma js_add_NaN_right [simp]: "js_add x NaN = NaN"
  by (cases x) simp_all

lemma js_mul_NaN_right [simp]: "js_mul x NaN = NaN"
  by (cases x) simp_all

lemma js_div_NaN_right [simp]: "js_div x NaN = NaN"
  by (cases x) simp_all

lemma dot_zero_left:
  assumes "\<forall>x\<in>set vecA. x = Fin 0" and "acc = NaN \<or> acc = Fin 0"
  shows "reduce_from i (\<lambda>sum a k. js_add sum (js_mul a (ToNumber (index vecB k)))) acc vecA = NaN \<or>
         reduce_from i (\<lambda>sum a k. js_add sum (js_mul a (ToNumber (index vecB k)))) acc vecA = Fin 0"
  using assms
proof (induction vecA arbitrary: i acc)
  case Nil
  then show ?case by simp
next
  case (Cons x vecA)
  from Cons.prems(1) have x: "x = Fin 0" by simp
  have m: "js_mul (Fin 0) z = NaN \<or> js_mul (Fin 0) z = Fin 0" for z
    by (cases z) simp_all
  have "js_add acc (js_mul x (ToNumber (index vecB i))) = NaN \<or>
        js_add acc (js_mul x (ToNumber (index vecB i))) = Fin 0"
    using x m [of "ToNumber (index vecB i)"] Cons.prems(2) by auto
  from Cons.IH [OF _ this, of "Suc i"] Cons.prems(1) show ?case by simp
qed

lemma dot_zero_right:
  assumes "\<forall>x\<in>set vecB. x = Fin 0" and "acc = NaN \<or> acc = Fin 0"
  shows "reduce_from i (\<lambda>sum a k. js_add sum (js_mul a (ToNumber (index vecB k)))) acc vecA = NaN \<or>
         reduce_from i (\<lambda>sum a k. js_add sum (js_mul a (ToNumber (index vecB k)))) acc vecA = Fin 0"
  using assms
proof (induction vecA arbitrary: i acc)
  case Nil
  then show ?case by simp
next
  case (Cons x vecA)
  have t: "ToNumber (index vecB i) = NaN \<or> ToNumber (index vecB i) = Fin 0"
    using Cons.prems(1) by (auto simp: index_def)
  have m: "js_mul z (Fin 0) = NaN \<or> js_mul z (Fin 0) = Fin 0" for z
    by (cases z) simp_all
  have "js_add acc (js_mul x (ToNumber (index vecB i))) = NaN \<or>
        js_add acc (js_mul x (ToNumber (index vecB i))) = Fin 0"
    using t m [of x] Cons.prems(2) by auto
  from Cons.IH [OF Cons.prems(1) this, of "Suc i"] show ?case by simp
qed

lemma dotProduct_zero_vector:
  "(\<forall>x\<in>set vecA. x = Fin 0) \<or> (\<forall>x\<in>set vecB. x = Fin 0) \<Longrightarrow>
     dotProduct vecA vecB = NaN \<or> dotProduct vecA vecB = Fin 0"
  unfolding dotProduct_def reduce_def using dot_zero_left dot_zero_right by blast

lemma sum_squares_zero_vector:
  "\<forall>x\<in>set v. x = Fin 0 \<Longrightarrow>
     reduce_from i (\<lambda>sum val k. js_add sum (js_mul val val)) (Fin 0) v = Fin 0"
  by (induction v arbitrary: i) simp_all

lemma magnitude_zero_vector: "\<forall>x\<in>set v. x = Fin 0 \<Longrightarrow> magnitude v = Fin 0"
  by (simp add: magnitude_def reduce_def sum_squares_zero_vector)

lemma cosineSimilarity_zero_vector:
  assumes "(\<forall>x\<in>set vecA. x = Fin 0) \<or> (\<forall>x\<in>set vecB. x = Fin 0)"
  shows "cosineSimilarity vecA vecB = NaN"
proof -
  from dotProduct_zero_vector [OF assms]
  have dot: "dotProduct vecA vecB = NaN \<or> dotProduct vecA vecB = Fin 0" .
  have z: "js_mul (Fin 0) z = NaN \<or> js_mul (Fin 0) z = Fin 0"
          "js_mul z (Fin 0) = NaN \<or> js_mul z (Fin 0) = Fin 0" for z
    by (cases z; simp)+
  from assms magnitude_zero_vector
  have "magnitude vecA = Fin 0 \<or> magnitude vecB = Fin 0" by blast
  with z have den: "js_mul (magnitude vecA) (magnitude vecB) = NaN \<or>
      js_mul (magnitude vecA) (magnitude vecB) = Fin 0"
    by metis
  from dot den show ?thesis
    unfolding cosineSimilarity_def by (cases "js_mul (magnitude vecA) (magnitude vecB)") auto
qed

lemma js_mul_commute: "js_mul x y = js_mul y x"
  by (cases x; cases y) (simp_all add: mult.commute)

lemma reduce_from_dot_zip:
  "length pre = i \<Longrightarrow> length xs \<le> length ys \<Longrightarrow>
     reduce_from i (\<lambda>sum a k. js_add sum (js_mul a (ToNumber (index (pre @ ys) k)))) acc xs =
     foldl (\<lambda>sum (a, b). js_add sum (js_mul a b)) acc (zip xs ys)"
proof (induction xs arbitrary: i acc pre ys)
  case Nil
  then show ?case by simp
next
  case (Cons x xs)
  from Cons.prems(2) obtain y ys' where ys: "ys = y # ys'" by (cases ys) auto
  have here: "index (pre @ ys) i = Some y"
    using Cons.prems(1) [symmetric] ys by (simp add: index_def)
  have "pre @ ys = (pre @ [y]) @ ys'" using ys by simp
  moreover have "length (pre @ [y]) = Suc i" using Cons.prems(1) by simp
  moreover have "length xs \<le> length ys'" using Cons.prems(2) ys by simp
  ultimately have
    "reduce_from (Suc i) (\<lambda>sum a k. js_add sum (js_mul a (ToNumber (index (pre @ ys) k)))) acc' xs =
     foldl (\<lambda>sum (a, b). js_add sum (js_mul a b)) acc' (zip xs ys')" for acc'
    using Cons.IH [of "pre @ [y]" "Suc i" ys' acc'] by simp
  then show ?case using here ys by simp
qed

lemma dotProduct_zip:
  "length vecA \<le> length vecB \<Longrightarrow>
     dotProduct vecA vecB = foldl (\<lambda>sum (a, b). js_add sum (js_mul a b)) (Fin 0) (zip vecA vecB)"
  unfolding dotProduct_def reduce_def using reduce_from_dot_zip [of "[]" 0 vecA vecB] by simp

lemma foldl_zip_commute:
  "length xs = length ys \<Longrightarrow>
     foldl (\<lambda>sum (a, b). js_add sum (js_mul a b)) acc (zip xs ys) =
     foldl (\<lambda>sum (a, b). js_add sum (js_mul a b)) acc (zip ys xs)"
proof (induction xs ys arbitrary: acc rule: list_induct2)
  case Nil
  then show ?case by simp
next
  case (Cons x xs y ys)
  then show ?case by (simp add: js_mul_commute [of x y])
qed

lemma dotProduct_commute: "length vecA = length vecB \<Longrightarrow> dotProduct vecA vecB = dotProduct vecB vecA"
  using dotProduct_zip [of vecA vecB] dotProduct_zip [of vecB vecA] foldl_zip_commute [of vecA vecB]
  by simp

lemma dotProduct_take:
  "length vecA \<le> length vecB \<Longrightarrow> dotProduct vecA vecB = dotProduct vecA (take (length vecA) vecB)"
proof -
  assume le: "length vecA \<le> length vecB"
  have "zip xs (take (length xs) ys) = zip xs ys" for xs ys :: vec
  proof (induction xs arbitrary: ys)
    case Nil
    then show ?case by simp
  next
    case (Cons x xs)
    then show ?case by (cases ys) simp_all
  qed
  then have "zip vecA (take (length vecA) vecB) = zip vecA vecB" .
  then show ?thesis
    using dotProduct_zip [OF le] dotProduct_zip [of vecA "take (length vecA) vecB"] le by simp
qed

lemma reduce_from_dot_NaN:
  "reduce_from i (\<lambda>sum a k. js_add sum (js_mul a (ToNumber (index vecB k)))) NaN xs = NaN"
  by (induction xs arbitrary: i) simp_all

lemma reduce_from_dot_beyond:
  "i \<le> length vecB \<Longrightarrow> length vecB < i + length xs \<Longrightarrow>
     reduce_from i (\<lambda>sum a k. js_add sum (js_mul a (ToNumber (index vecB k)))) acc xs = NaN"
proof (induction xs arbitrary: i acc)
  case Nil
  then show ?case by simp
next
  case (Cons x xs)
  show ?case
  proof (cases "i < length vecB")
    case True
    then have "Suc i \<le> length vecB" "length vecB < Suc i + length xs" using Cons.prems by simp_all
    from Cons.IH [OF this] show ?thesis by simp
  next
    case False
    then have "index vecB i = None" by (simp add: index_def)
    then show ?thesis by (simp add: reduce_from_dot_NaN)
  qed
qed

lemma dotProduct_longer: "length vecB < length vecA \<Longrightarrow> dotProduct vecA vecB = NaN"
  unfolding dotProduct_def reduce_def using reduce_from_dot_beyond [of 0 vecB vecA] by simp

section \<open>Selection of the best match\<close>

lemmas similarity_defs = cosineSimilarity_def dotProduct_def magnitude_def reduce_def index_def
lemmas example_defs = doc_a_def doc_b_def doc_c_def doc_zero_def doc_long_def doc_unit_def
  doc_a_again_def env_ok_def env_generation_down_def env_embedding_down_def env_long_def
  env_again_def env_tiny_def

lemma nearest_result:
  assumes "nearest q docs = (bestMatch, highestSimilarity)"
  shows "(\<forall>j<length docs. \<not> js_gt (cosineSimilarity q (embedding (docs ! j))) highestSimilarity)"
    and "bestMatch = None \<Longrightarrow> highestSimilarity = NegInfinity"
    and "bestMatch = Some d \<Longrightarrow>
           \<exists>i<length docs. docs ! i = d \<and> highestSimilarity = cosineSimilarity q (embedding d) \<and>
              js_gt highestSimilarity NegInfinity \<and>
              (\<forall>j<i. cosineSimilarity q (embedding (docs ! j)) \<noteq> highestSimilarity)"
proof -
  note inv = foldl_scan_step [OF assms [unfolded nearest_def]]
  from inv show "\<forall>j<length docs. \<not> js_gt (cosineSimilarity q (embedding (docs ! j))) highestSimilarity"
    by blast
  from inv show "bestMatch = None \<Longrightarrow> highestSimilarity = NegInfinity" by auto
  from inv show "bestMatch = Some d \<Longrightarrow>
           \<exists>i<length docs. docs ! i = d \<and> highestSimilarity = cosineSimilarity q (embedding d) \<and>
              js_gt highestSimilarity NegInfinity \<and>
              (\<forall>j<i. cosineSimilarity q (embedding (docs ! j)) \<noteq> highestSimilarity)"
    by auto
qed

lemma nearest_None_iff:
  assumes "nearest q docs = (bestMatch, highestSimilarity)"
  shows "bestMatch = None \<longleftrightarrow>
           (\<forall>d\<in>set docs. \<not> js_gt (cosineSimilarity q (embedding d)) NegInfinity)"
proof
  note r = nearest_result [OF assms]
  assume none: "bestMatch = None"
  show "\<forall>d\<in>set docs. \<not> js_gt (cosineSimilarity q (embedding d)) NegInfinity"
  proof
    fix d assume "d \<in> set docs"
    then obtain j where "j < length docs" "docs ! j = d" by (auto simp: in_set_conv_nth)
    with r(1) r(2) [OF none] show "\<not> js_gt (cosineSimilarity q (embedding d)) NegInfinity"
      by auto
  qed
next
  assume all: "\<forall>d\<in>set docs. \<not> js_gt (cosineSimilarity q (embedding d)) NegInfinity"
  show "bestMatch = None"
  proof (cases bestMatch)
    case None
    then show ?thesis .
  next
    case (Some d)
    from nearest_result(3) [OF assms Some] obtain i where "i < length docs" "docs ! i = d"
      "js_gt (cosineSimilarity q (embedding d)) NegInfinity" by auto
    with all show ?thesis by (metis nth_mem)
  qed
qed

lemma nearest_all_NaN:
  assumes "nearest q docs = (bestMatch, highestSimilarity)"
    and "\<forall>d\<in>set docs. cosineSimilarity q (embedding d) = NaN"
  shows "bestMatch = None"
  using nearest_None_iff [OF assms(1)] assms(2) by simp

text \<open>
  C1, as the code has it. Started at \<open>(null, -Infinity)\<close>, the scan of the documents
  returned by the store selects a document exactly when some similarity is greater than
  \<open>-Infinity\<close>, that is, when some similarity is neither \<open>NaN\<close> nor \<open>-Infinity\<close>. The
  selected document is in the list, \<open>highestSimilarity\<close> is its similarity to the query,
  no scanned document has a greater similarity, and no document before it in scan order
  has an equal one: of several documents with the highest similarity the first is
  selected. When nothing is selected the tracker is still \<open>-Infinity\<close>.
\<close>

theorem nearest_selects_first_highest:
  assumes "nearest q docs = (bestMatch, highestSimilarity)"
  shows "(bestMatch = None \<longleftrightarrow>
            (\<forall>d\<in>set docs. cosineSimilarity q (embedding d) = NaN \<or>
                           cosineSimilarity q (embedding d) = NegInfinity)) \<and>
         (bestMatch = None \<longrightarrow> highestSimilarity = NegInfinity) \<and>
         (\<forall>d. bestMatch = Some d \<longrightarrow>
            (\<exists>i<length docs. docs ! i = d \<and>
               highestSimilarity = cosineSimilarity q (embedding d) \<and>
               highestSimilarity \<noteq> NaN \<and> highestSimilarity \<noteq> NegInfinity \<and>
               (\<forall>j<length docs. \<not> js_gt (cosineSimilarity q (embedding (docs ! j))) highestSimilarity) \<and>
               (\<forall>j<i. cosineSimilarity q (embedding (docs ! j)) \<noteq> highestSimilarity)))"
proof -
  note r = nearest_result [OF assms]
  have some: "\<exists>i<length docs. docs ! i = d \<and>
               highestSimilarity = cosineSimilarity q (embedding d) \<and>
               highestSimilarity \<noteq> NaN \<and> highestSimilarity \<noteq> NegInfinity \<and>
               (\<forall>j<length docs. \<not> js_gt (cosineSimilarity q (embedding (docs ! j))) highestSimilarity) \<and>
               (\<forall>j<i. cosineSimilarity q (embedding (docs ! j)) \<noteq> highestSimilarity)"
    if "bestMatch = Some d" for d
  proof -
    from r(3) [OF that] obtain i where i: "i < length docs" "docs ! i = d"
      "highestSimilarity = cosineSimilarity q (embedding d)" "js_gt highestSimilarity NegInfinity"
      "\<forall>j<i. cosineSimilarity q (embedding (docs ! j)) \<noteq> highestSimilarity" by blast
    from i(4) have "highestSimilarity \<noteq> NaN \<and> highestSimilarity \<noteq> NegInfinity"
      by (simp add: js_gt_NegInfinity_iff)
    with i r(1) show ?thesis by blast
  qed
  have none: "bestMatch = None \<longleftrightarrow>
            (\<forall>d\<in>set docs. cosineSimilarity q (embedding d) = NaN \<or>
                           cosineSimilarity q (embedding d) = NegInfinity)"
    using nearest_None_iff [OF assms] by (simp add: js_gt_NegInfinity_iff)
  from none some r(2) show ?thesis by blast
qed

theorem nearest_selects_first_highest_witness:
  "nearest [Fin 1, Fin 0] [doc_zero, doc_b, doc_a, doc_c] = (Some doc_a, Fin 1) \<and>
   [doc_zero, doc_b, doc_a, doc_c] ! 2 = doc_a \<and>
   cosineSimilarity [Fin 1, Fin 0] (embedding doc_zero) = NaN \<and>
   cosineSimilarity [Fin 1, Fin 0] (embedding doc_b) = Fin 0 \<and>
   cosineSimilarity [Fin 1, Fin 0] (embedding doc_a) = Fin 1 \<and>
   cosineSimilarity [Fin 1, Fin 0] (embedding doc_c) = Fin 1"
proof -
  have h: "nearest [Fin 1, Fin 0] [doc_zero, doc_b, doc_a, doc_c] = (Some doc_a, Fin 1)"
    by (simp add: nearest_def similarity_defs example_defs Let_def)
  show ?thesis
    using h nearest_selects_first_highest [OF h]
    by (simp add: similarity_defs example_defs)
qed

lemma tiny_neq: "tiny \<noteq> 0" "\<not> tiny < 0"
  using tiny_pos by linarith+

lemma cosineSimilarity_tiny: "cosineSimilarity [Fin (- tiny)] [Fin 1] = NegInfinity"
  by (simp add: similarity_defs round_double_tiny round_double_tiny_square tiny_neq)

text \<open>
  The claim C1 as stated fails. The query vector \<open>[-2^-600]\<close> and the one stored vector
  \<open>[1]\<close> have the dot product \<open>-2^-600\<close>; the square of \<open>2^-600\<close> underflows, so the
  magnitude of the query is zero and the similarity is \<open>-2^-600 / 0 = -Infinity\<close>. That
  is the highest similarity among the records scanned, and it is a number, yet it is not
  greater than the tracker's initial \<open>-Infinity\<close>: the record is not selected and the
  handler answers "No match found".
\<close>

theorem nearest_selects_first_highest_counterexample:
  "cosineSimilarity [Fin (- tiny)] (embedding doc_unit) = NegInfinity \<and>
   nearest [Fin (- tiny)] [doc_unit] = (None, NegInfinity) \<and>
   query env_tiny [doc_unit] (Some ''what is upsilon?'') =
     \<lparr>status = 200, message = ''No match found'', response = None,
      similarity = Some NegInfinity\<rparr>"
  using cosineSimilarity_tiny
  by (simp add: query_def query_try_def find_all_def search_def nearest_def index_def
        example_defs Let_def)

section \<open>Properties of the similarity\<close>

text \<open>
  C9. On two vectors of the same length the similarity does not depend on the order of
  its arguments: the two calls return the same value (when that value is \<open>NaN\<close>, both
  return \<open>NaN\<close>).
\<close>

theorem cosineSimilarity_symmetric:
  "length vecA = length vecB \<Longrightarrow> cosineSimilarity vecA vecB = cosineSimilarity vecB vecA"
  unfolding cosineSimilarity_def
  using dotProduct_commute [of vecA vecB] js_mul_commute [of "magnitude vecA" "magnitude vecB"]
  by simp

theorem cosineSimilarity_symmetric_witness:
  "length [Fin 3, Fin 4] = length [Fin 8, Fin 6] \<and>
   cosineSimilarity [Fin 3, Fin 4] [Fin 8, Fin 6] = round_double (48 / 50) \<and>
   cosineSimilarity [Fin 8, Fin 6] [Fin 3, Fin 4] = round_double (48 / 50)"
proof -
  have h: "length [Fin 3, Fin 4] = length [Fin 8, Fin 6]" by simp
  have v: "cosineSimilarity [Fin 3, Fin 4] [Fin 8, Fin 6] = round_double (48 / 50)"
    by (simp add: similarity_defs)
  show ?thesis using h v cosineSimilarity_symmetric [OF h] by simp
qed

text \<open>
  C3, as the code has it. \<open>cosineSimilarity\<close> has no check of the lengths and no failure:
  on vectors of different lengths it returns a value. When the first vector is the longer
  one, \<open>vecB[i]\<close> is \<open>undefined\<close> for the last indices and the result is \<open>NaN\<close>. When the
  first vector is the shorter one, the dot product reads only the first \<open>length vecA\<close>
  components of \<open>vecB\<close>, while the magnitude of \<open>vecB\<close> is taken over all of it.
\<close>

theorem cosineSimilarity_length_mismatch:
  "(length vecB < length vecA \<longrightarrow> cosineSimilarity vecA vecB = NaN) \<and>
   (length vecA < length vecB \<longrightarrow>
      cosineSimilarity vecA vecB =
        js_div (dotProduct vecA (take (length vecA) vecB))
               (js_mul (magnitude vecA) (magnitude vecB)))"
proof (intro conjI impI)
  assume "length vecB < length vecA"
  then show "cosineSimilarity vecA vecB = NaN"
    by (simp add: cosineSimilarity_def dotProduct_longer)
next
  assume "length vecA < length vecB"
  then have "dotProduct vecA vecB = dotProduct vecA (take (length vecA) vecB)"
    using dotProduct_take [of vecA vecB] by simp
  then show "cosineSimilarity vecA vecB =
        js_div (dotProduct vecA (take (length vecA) vecB))
               (js_mul (magnitude vecA) (magnitude vecB))"
    by (simp add: cosineSimilarity_def)
qed

theorem cosineSimilarity_length_mismatch_witness:
  "length [Fin 1] < length [Fin 1, Fin 0] \<and>
   cosineSimilarity [Fin 1, Fin 0] [Fin 1] = NaN \<and>
   cosineSimilarity [Fin 1] [Fin 1, Fin 0] =
     js_div (dotProduct [Fin 1] [Fin 1]) (js_mul (magnitude [Fin 1]) (magnitude [Fin 1, Fin 0]))"
  using cosineSimilarity_length_mismatch [of "[Fin 1]" "[Fin 1, Fin 0]"]
        cosineSimilarity_length_mismatch [of "[Fin 1, Fin 0]" "[Fin 1]"]
  by simp

text \<open>
  The claim C3 as stated fails: on a vector of one component and a vector of two the
  function returns the number 1, having ignored the second component of the longer vector
  in the dot product; on \<open>[1]\<close> and \<open>[3, 4]\<close> it returns the double nearest to 3/5.
\<close>

theorem cosineSimilarity_length_mismatch_counterexample:
  "length [Fin 1] \<noteq> length [Fin 1, Fin 0] \<and>
   cosineSimilarity [Fin 1] [Fin 1, Fin 0] = Fin 1 \<and>
   cosineSimilarity [Fin 1] [Fin 3, Fin 4] = round_double (3 / 5)"
  by (simp add: similarity_defs)

section \<open>Documents whose similarity is not a number\<close>

lemma scan_step_NaN:
  "cosineSimilarity q (embedding d) = NaN \<Longrightarrow> scan_step q acc d = acc"
  by (cases acc) (simp add: Let_def)

lemma foldl_scan_step_filter:
  "foldl (scan_step q) acc (filter (\<lambda>d. cosineSimilarity q (embedding d) \<noteq> NaN) ds) =
   foldl (scan_step q) acc ds"
  by (induction ds arbitrary: acc) (simp_all add: scan_step_NaN)

text \<open>
  C5. A document whose similarity to the query is \<open>NaN\<close> is skipped: the scan gives the
  same result as the scan of the list without such documents, and the selected document
  never has the similarity \<open>NaN\<close>. The similarity is \<open>NaN\<close> in particular when
  either vector is a zero vector (its Euclidean norm is exactly zero): the divisor is
  then zero and so is the dot product, if it is a number at all.
\<close>

theorem nearest_skips_NaN:
  "nearest q docs = nearest q (filter (\<lambda>d. cosineSimilarity q (embedding d) \<noteq> NaN) docs) \<and>
   (\<forall>d. fst (nearest q docs) = Some d \<longrightarrow> cosineSimilarity q (embedding d) \<noteq> NaN) \<and>
   (\<forall>d. (\<forall>x\<in>set q. x = Fin 0) \<or> (\<forall>x\<in>set (embedding d). x = Fin 0) \<longrightarrow>
         cosineSimilarity q (embedding d) = NaN)"
proof (intro conjI allI impI)
  show "nearest q docs = nearest q (filter (\<lambda>d. cosineSimilarity q (embedding d) \<noteq> NaN) docs)"
    by (simp add: nearest_def foldl_scan_step_filter)
next
  fix d assume sel: "fst (nearest q docs) = Some d"
  obtain hi where "nearest q docs = (Some d, hi)" using sel by (cases "nearest q docs") auto
  from nearest_result(3) [OF this, of d]
  have "js_gt (cosineSimilarity q (embedding d)) NegInfinity" by auto
  then show "cosineSimilarity q (embedding d) \<noteq> NaN" by auto
next
  fix d assume "(\<forall>x\<in>set q. x = Fin 0) \<or> (\<forall>x\<in>set (embedding d). x = Fin 0)"
  then show "cosineSimilarity q (embedding d) = NaN" by (rule cosineSimilarity_zero_vector)
qed

theorem nearest_skips_NaN_witness:
  "embedding doc_zero = [Fin 0, Fin 0] \<and>
   magnitude (embedding doc_zero) = Fin 0 \<and>
   cosineSimilarity [Fin 0, Fin 1] (embedding doc_zero) = NaN \<and>
   nearest [Fin 0, Fin 1] [doc_zero, doc_b, doc_zero] = nearest [Fin 0, Fin 1] [doc_b] \<and>
   fst (nearest [Fin 0, Fin 1] [doc_zero, doc_b, doc_zero]) = Some doc_b"
proof -
  note t = nearest_skips_NaN [of "[Fin 0, Fin 1]" "[doc_zero, doc_b, doc_zero]"]
  have e: "embedding doc_zero = [Fin 0, Fin 0]" by (simp add: doc_zero_def)
  then have z: "\<forall>x\<in>set (embedding doc_zero). x = Fin 0" by simp
  have m: "magnitude (embedding doc_zero) = Fin 0"
    by (simp add: magnitude_def reduce_def doc_zero_def)
  from t z have c: "cosineSimilarity [Fin 0, Fin 1] (embedding doc_zero) = NaN" by blast
  have f: "filter (\<lambda>d. cosineSimilarity [Fin 0, Fin 1] (embedding d) \<noteq> NaN)
             [doc_zero, doc_b, doc_zero] = [doc_b]"
    by (simp add: similarity_defs example_defs)
  from t have "nearest [Fin 0, Fin 1] [doc_zero, doc_b, doc_zero] =
      nearest [Fin 0, Fin 1] (filter (\<lambda>d. cosineSimilarity [Fin 0, Fin 1] (embedding d) \<noteq> NaN)
             [doc_zero, doc_b, doc_zero])" by blast
  then have n: "nearest [Fin 0, Fin 1] [doc_zero, doc_b, doc_zero] = nearest [Fin 0, Fin 1] [doc_b]"
    by (simp only: f)
  have s: "fst (nearest [Fin 0, Fin 1] [doc_b]) = Some doc_b"
    by (simp add: nearest_def similarity_defs example_defs Let_def)
  from e m c n s show ?thesis by (simp only: simp_thms)
qed

section \<open>The query handlers\<close>

lemma search_no_match:
  "search queryEmbedding allEmbeddings = Inr (None, highestSimilarity) \<Longrightarrow>
     highestSimilarity = NegInfinity"
  unfolding search_def
  by (auto split: option.splits if_splits dest: nearest_result(2))

lemma search_all_NaN:
  assumes "allEmbeddings = [] \<or>
     (\<exists>queryVec. index queryEmbedding 0 = Some queryVec \<and>
        (\<forall>d\<in>set allEmbeddings. cosineSimilarity queryVec (embedding d) = NaN))"
  shows "search queryEmbedding allEmbeddings = Inr (None, NegInfinity)"
proof (cases "index queryEmbedding 0")
  case None
  with assms show ?thesis by (simp add: search_def)
next
  case (Some queryVec)
  have all: "\<forall>d\<in>set allEmbeddings. cosineSimilarity queryVec (embedding d) = NaN"
    using assms Some by auto
  obtain b h where n: "nearest queryVec allEmbeddings = (b, h)"
    by (cases "nearest queryVec allEmbeddings") auto
  from nearest_all_NaN [OF n all] have "b = None" .
  with nearest_result(2) [OF n] n Some show ?thesis by (simp add: search_def)
qed

lemmas handler_defs = query_def query_try_def query_old_def query_old_try_def find_all_def
  search_def nearest_def prompt_def reply_def upload_def upload_try_def save_def

text \<open>
  The handler of query.js on a search that selects nothing: an empty collection, or one
  where every similarity is \<open>NaN\<close>.
\<close>

lemma query_no_match_found:
  assumes "text \<noteq> []" and "featureExtraction e (Some text) = Inr queryEmbedding"
    and "find_error e = None"
    and "store = [] \<or>
         (\<exists>queryVec. index queryEmbedding 0 = Some queryVec \<and>
            (\<forall>d\<in>set store. cosineSimilarity queryVec (embedding d) = NaN))"
  shows "query e store (Some text) =
           \<lparr>status = 200, message = ''No match found'', response = None,
            similarity = Some NegInfinity\<rparr>"
  using assms(1-3) search_all_NaN [OF assms(4)]
  by (simp add: query_def query_try_def find_all_def)

text \<open>The handler of the older server on the same searches.\<close>

lemma query_old_no_match_fails:
  assumes "featureExtraction e queryText = Inr queryEmbedding" and "find_error e = None"
    and "store = [] \<or>
         (\<exists>queryVec. index queryEmbedding 0 = Some queryVec \<and>
            (\<forall>d\<in>set store. cosineSimilarity queryVec (embedding d) = NaN))"
  shows "query_old e store queryText = reply 500 ''Error processing query''"
  using assms(1,2) search_all_NaN [OF assms(3)]
  by (simp add: query_old_def query_old_try_def find_all_def)

text \<open>
  C2. The handler of query.js answers a search over an empty collection, or over one
  where every similarity is \<open>NaN\<close>, with "No match found" (lemma \<open>query_no_match_found\<close>).
  The handler of the older server does not: after the same search it reads
  \<open>bestMatch.documentName\<close> of \<open>null\<close>, and the request ends in the error response
  (lemma \<open>query_old_no_match_fails\<close>), as it does here on the empty collection and on a
  collection whose one document has a zero embedding.
\<close>

theorem query_old_empty_store:
  "query_old env_ok [] (Some ''what is alpha?'') =
     \<lparr>status = 500, message = ''Error processing query'', response = None, similarity = None\<rparr> \<and>
   query_old env_ok [doc_zero] (Some ''what is alpha?'') =
     \<lparr>status = 500, message = ''Error processing query'', response = None, similarity = None\<rparr> \<and>
   query env_ok [] (Some ''what is alpha?'') =
     \<lparr>status = 200, message = ''No match found'', response = None,
      similarity = Some NegInfinity\<rparr>"
  by (simp add: handler_defs similarity_defs example_defs Let_def)

text \<open>
  C10, as the code has it. When the scan selects no document, the handler of query.js
  passes to \<open>res.json\<close> the message "No match found" together with the key \<open>similarity\<close>,
  whose value is the initial \<open>-Infinity\<close> of the tracker. The body the caller receives
  has the key \<open>similarity\<close>, not omitted, with the value \<open>null\<close>.
\<close>

theorem query_no_match_similarity:
  assumes "text \<noteq> []" and "featureExtraction e (Some text) = Inr queryEmbedding"
    and "find_all e store = Inr allEmbeddings"
    and "search queryEmbedding allEmbeddings = Inr (None, highestSimilarity)"
  shows "query e store (Some text) =
           \<lparr>status = 200, message = ''No match found'', response = None,
            similarity = Some NegInfinity\<rparr> \<and>
         json_body (query e store (Some text)) =
           [(''message'', JString ''No match found''), (''similarity'', JNull)]"
  using assms search_no_match [OF assms(4)]
  by (simp add: query_def query_try_def json_body_def)

theorem query_no_match_similarity_witness:
  "search [[Fin 1, Fin 0]] [doc_zero] = Inr (None, NegInfinity) \<and>
   query env_ok [doc_zero] (Some ''what is alpha?'') =
     \<lparr>status = 200, message = ''No match found'', response = None,
      similarity = Some NegInfinity\<rparr> \<and>
   json_body (query env_ok [doc_zero] (Some ''what is alpha?'')) =
     [(''message'', JString ''No match found''), (''similarity'', JNull)]"
proof -
  have t: "''what is alpha?'' \<noteq> []" by simp
  have f: "featureExtraction env_ok (Some ''what is alpha?'') = Inr [[Fin 1, Fin 0]]"
    by (simp add: env_ok_def)
  have a: "find_all env_ok [doc_zero] = Inr [doc_zero]"
    by (simp add: find_all_def env_ok_def)
  have s: "search [[Fin 1, Fin 0]] [doc_zero] = Inr (None, NegInfinity)"
    by (simp add: search_def nearest_def similarity_defs doc_zero_def Let_def)
  from s query_no_match_similarity [OF t f a s] show ?thesis by blast
qed

text \<open>
  The claim C10 as stated fails: on an empty collection the response the caller receives
  carries no score of negative infinity. Its key \<open>similarity\<close> has the value \<open>null\<close>.
  (With a match of similarity 1 the same key carries the number 1.)
\<close>

theorem query_no_match_similarity_counterexample:
  "json_body (query env_ok [] (Some ''what is alpha?'')) =
     [(''message'', JString ''No match found''), (''similarity'', JNull)] \<and>
   map_of (json_body (query env_ok [] (Some ''what is alpha?''))) ''similarity'' = Some JNull \<and>
   map_of (json_body (query env_ok [doc_a] (Some ''what is alpha?''))) ''similarity'' =
     Some (JNumber 1)"
  by (simp add: handler_defs json_body_def similarity_defs example_defs Let_def)

text \<open>
  C4, as the code has it. The generation call is inside the handler's one \<open>try\<close> block:
  when a best match was found and the call throws, the request fails with the status 500
  and the message "Error processing query"; the response carries neither the matched
  document nor its similarity.
\<close>

theorem query_generation_failure:
  assumes "text \<noteq> []" and "featureExtraction e (Some text) = Inr queryEmbedding"
    and "find_all e store = Inr allEmbeddings"
    and "search queryEmbedding allEmbeddings = Inr (Some bestMatch, highestSimilarity)"
    and "chat_create e (prompt bestMatch text) = Inl err"
  shows "query e store (Some text) =
           \<lparr>status = 500, message = ''Error processing query'', response = None,
            similarity = None\<rparr>"
  using assms by (simp add: query_def query_try_def reply_def)

theorem query_generation_failure_witness:
  "search [[Fin 1, Fin 0]] [doc_b, doc_a] = Inr (Some doc_a, Fin 1) \<and>
   chat_create env_generation_down (prompt doc_a ''what is alpha?'') =
     Inl (Failure ''generation unavailable'') \<and>
   query env_generation_down [doc_b, doc_a] (Some ''what is alpha?'') =
     \<lparr>status = 500, message = ''Error processing query'', response = None, similarity = None\<rparr>"
proof -
  have t: "''what is alpha?'' \<noteq> []" by simp
  have f: "featureExtraction env_generation_down (Some ''what is alpha?'') = Inr [[Fin 1, Fin 0]]"
    by (simp add: env_generation_down_def env_ok_def)
  have a: "find_all env_generation_down [doc_b, doc_a] = Inr [doc_b, doc_a]"
    by (simp add: find_all_def env_generation_down_def env_ok_def)
  have s: "search [[Fin 1, Fin 0]] [doc_b, doc_a] = Inr (Some doc_a, Fin 1)"
    by (simp add: search_def nearest_def similarity_defs doc_a_def doc_b_def Let_def)
  have c: "chat_create env_generation_down (prompt doc_a ''what is alpha?'') =
     Inl (Failure ''generation unavailable'')"
    by (simp add: env_generation_down_def env_ok_def)
  from s c query_generation_failure [OF t f a s c] show ?thesis by simp
qed

text \<open>
  The claim C4 as stated fails: the search finds \<open>a.pdf\<close> with the similarity 1, the
  generation call throws, and the response is the error response, without the match and
  without the score. With the generation call answering, the same request returns them.
\<close>

theorem query_generation_failure_counterexample:
  "search [[Fin 1, Fin 0]] [doc_b, doc_a] = Inr (Some doc_a, Fin 1) \<and>
   query env_generation_down [doc_b, doc_a] (Some ''what is alpha?'') =
     \<lparr>status = 500, message = ''Error processing query'', response = None, similarity = None\<rparr> \<and>
   query env_ok [doc_b, doc_a] (Some ''what is alpha?'') =
     \<lparr>status = 200, message = ''Closest match for your query: a.pdf'',
      response = Some ''an answer'', similarity = Some (Fin 1)\<rparr>"
  by (simp add: handler_defs similarity_defs example_defs Let_def)

section \<open>The upload handler\<close>

lemma upload_try_store:
  "upload_try e store file = (res, store') \<Longrightarrow>
     (store' = store \<and> res \<noteq> Inr (reply 201 ''Embedding saved successfully'')) \<or>
     (\<exists>filename new. file = Some filename \<and> documentName new = filename \<and>
        store' = store @ [new] \<and> res = Inr (reply 201 ''Embedding saved successfully''))"
  unfolding upload_try_def save_def
  by (auto simp: Let_def reply_def split: option.splits sum.splits)

lemma status_upload_catch: "status (upload_catch err) = 400 \<or> status (upload_catch err) = 500"
  by (cases err) (simp_all add: reply_def)

text \<open>
  C6. When the embedding call throws, the \<open>try\<close> block of the upload handler fails with
  the error of that call before anything is saved: the request is answered by the
  \<open>catch\<close> block with an error status, and the collection is what it was.
\<close>

theorem upload_embedding_failure:
  assumes "extractText e filename = Inr extractedText"
    and "featureExtraction e (Some extractedText) = Inl err"
  shows "upload_try e store (Some filename) = (Inl err, store) \<and>
         upload e store (Some filename) = (upload_catch err, store) \<and>
         (status (upload_catch err) = 400 \<or> status (upload_catch err) = 500)"
  using assms status_upload_catch [of err] by (simp add: upload_def upload_try_def)

theorem upload_embedding_failure_witness:
  "featureExtraction env_embedding_down (Some ''alpha'') = Inl (Failure ''embedding unavailable'') \<and>
   upload_try env_embedding_down [doc_b] (Some ''a.pdf'') =
     (Inl (Failure ''embedding unavailable''), [doc_b]) \<and>
   upload env_embedding_down [doc_b] (Some ''a.pdf'') =
     (\<lparr>status = 500, message = ''Error processing the PDF'', response = None, similarity = None\<rparr>,
      [doc_b])"
proof -
  have x: "extractText env_embedding_down ''a.pdf'' = Inr ''alpha''"
    by (simp add: env_embedding_down_def env_ok_def)
  have f: "featureExtraction env_embedding_down (Some ''alpha'') = Inl (Failure ''embedding unavailable'')"
    by (simp add: env_embedding_down_def env_ok_def)
  from f upload_embedding_failure [OF x f, of "[doc_b]"] show ?thesis by (simp add: reply_def)
qed

text \<open>
  C7, as the code has it. Neither the schema nor the upload handler looks at the length of
  an embedding: when the external calls succeed, the first vector returned by the
  embedding call is saved as it is, whatever its length and whatever the lengths of the
  embeddings already stored.
\<close>

theorem upload_saves_any_length:
  assumes "extractText e filename = Inr extractedText"
    and "featureExtraction e (Some extractedText) = Inr (v # vs)"
    and "save_error e \<lparr>documentName = filename, embedding = v, content = Some extractedText\<rparr> = None"
  shows "upload e store (Some filename) =
           (\<lparr>status = 201, message = ''Embedding saved successfully'', response = None,
             similarity = None\<rparr>,
            store @ [\<lparr>documentName = filename, embedding = v, content = Some extractedText\<rparr>])"
  using assms by (simp add: upload_def upload_try_def save_def index_def reply_def)

theorem upload_saves_any_length_witness:
  "upload env_long [doc_a] (Some ''l.pdf'') =
     (\<lparr>status = 201, message = ''Embedding saved successfully'', response = None,
       similarity = None\<rparr>,
      [doc_a, \<lparr>documentName = ''l.pdf'', embedding = [Fin 1, Fin 0, Fin 0],
               content = Some ''lambda''\<rparr>])"
proof -
  have x: "extractText env_long ''l.pdf'' = Inr ''lambda''"
    by (simp add: env_long_def env_ok_def)
  have f: "featureExtraction env_long (Some ''lambda'') = Inr ([Fin 1, Fin 0, Fin 0] # [])"
    by (simp add: env_long_def env_ok_def)
  have s: "save_error env_long \<lparr>documentName = ''l.pdf'', embedding = [Fin 1, Fin 0, Fin 0],
              content = Some ''lambda''\<rparr> = None"
    by (simp add: env_long_def env_ok_def)
  from upload_saves_any_length [OF x f s, of "[doc_a]"] show ?thesis by simp
qed

text \<open>
  The claim C7 as stated fails: into a collection holding an embedding of two components
  the upload saves one of three components and answers 201; the two lengths then meet
  in \<open>cosineSimilarity\<close> at query time.
\<close>

theorem upload_saves_any_length_counterexample:
  "upload env_long [doc_a] (Some ''l.pdf'') =
     (\<lparr>status = 201, message = ''Embedding saved successfully'', response = None,
       similarity = None\<rparr>, [doc_a, doc_long]) \<and>
   length (embedding doc_a) = 2 \<and> length (embedding doc_long) = 3 \<and>
   query env_ok [doc_long] (Some ''what is alpha?'') =
     \<lparr>status = 200, message = ''Closest match for your query: l.pdf'',
      response = Some ''an answer'', similarity = Some (Fin 1)\<rparr>"
  by (simp add: handler_defs similarity_defs example_defs Let_def)

text \<open>
  C8, as the code has it. An upload never replaces a stored document: a request answered
  with 201 leaves the collection as it was, followed by one new document named after the
  uploaded file; any other request leaves the collection unchanged. Every document
  stored before, also one with the same \<open>documentName\<close>, is still in the collection.
\<close>

theorem upload_never_overwrites:
  assumes "upload e store (Some filename) = (r, store')"
  shows "(status r = 201 \<longrightarrow> (\<exists>new. store' = store @ [new] \<and> documentName new = filename)) \<and>
         (status r \<noteq> 201 \<longrightarrow> store' = store) \<and>
         (\<forall>d\<in>set store. d \<in> set store')"
proof -
  obtain res where t: "upload_try e store (Some filename) = (res, store')"
    and r: "r = (case res of Inl err \<Rightarrow> upload_catch err | Inr r' \<Rightarrow> r')"
    using assms by (cases "upload_try e store (Some filename)") (auto simp: upload_def split: sum.splits)
  from upload_try_store [OF t] show ?thesis
  proof
    assume same: "store' = store \<and> res \<noteq> Inr (reply 201 ''Embedding saved successfully'')"
    have "status r \<noteq> 201"
    proof (cases res)
      case (Inl err)
      with r status_upload_catch [of err] show ?thesis by auto
    next
      case (Inr r')
      with t same have "r' = reply 400 ''No file uploaded''"
        unfolding upload_try_def save_def
        by (auto simp: Let_def split: option.splits sum.splits)
      with r Inr show ?thesis by (simp add: reply_def)
    qed
    with same show ?thesis by simp
  next
    assume "\<exists>filename' new. Some filename = Some filename' \<and> documentName new = filename' \<and>
        store' = store @ [new] \<and> res = Inr (reply 201 ''Embedding saved successfully'')"
    then obtain new where "documentName new = filename" "store' = store @ [new]"
      "res = Inr (reply 201 ''Embedding saved successfully'')" by auto
    with r show ?thesis by (auto simp: reply_def)
  qed
qed

theorem upload_never_overwrites_witness:
  "upload env_again [doc_a] (Some ''a.pdf'') =
     (\<lparr>status = 201, message = ''Embedding saved successfully'', response = None,
       similarity = None\<rparr>, [doc_a, doc_a_again]) \<and>
   documentName doc_a_again = ''a.pdf'' \<and> doc_a \<in> set [doc_a, doc_a_again]"
proof -
  have u: "upload env_again [doc_a] (Some ''a.pdf'') =
     (\<lparr>status = 201, message = ''Embedding saved successfully'', response = None,
       similarity = None\<rparr>, [doc_a, doc_a_again])"
    by (simp add: handler_defs index_def example_defs)
  from u upload_never_overwrites [OF u] show ?thesis by (simp add: doc_a_again_def)
qed

text \<open>
  The claim C8 as stated fails: after a second upload of \<open>a.pdf\<close> the collection holds
  both documents of that name, \<open>find\<close> returns both, and a query still selects the one
  stored first.
\<close>

theorem upload_never_overwrites_counterexample:
  "upload env_again [doc_a] (Some ''a.pdf'') =
     (\<lparr>status = 201, message = ''Embedding saved successfully'', response = None,
       similarity = None\<rparr>, [doc_a, doc_a_again]) \<and>
   documentName doc_a = documentName doc_a_again \<and>
   content doc_a = Some ''alpha'' \<and> content doc_a_again = Some ''alpha, revised'' \<and>
   find_all env_ok [doc_a, doc_a_again] = Inr [doc_a, doc_a_again] \<and>
   search [[Fin 1, Fin 0]] [doc_a, doc_a_again] = Inr (Some doc_a, Fin 1)"
  by (simp add: handler_defs similarity_defs example_defs Let_def)

end
